theory Spec2Isabelle
  imports Main "HOL-Library.Sublist"
begin

section \<open>The operating system as seen by git-sync\<close>

text \<open>
  git-sync is a driver: every effect it has goes through a handful of library calls
  (\<open>os.Stat\<close>, \<open>filepath.EvalSymlinks\<close>, \<open>exec.Command(...).CombinedOutput\<close>,
  \<open>os.RemoveAll\<close>, \<open>ioutil.WriteFile\<close>, \<open>time.Sleep\<close>). The model keeps the
  program's control flow and records each such call, with the reply it got, in a trace.
  What a call answers is not fixed by the program, so the environment is a parameter:
  any function from the history so far and the call to a reply.

  Log statements (\<open>log.V(n).Infof\<close>, \<open>log.Errorf\<close>) change no control flow and are
  left out, as is the text that \<open>fmt.Errorf\<close> formats into a message: an error keeps
  its context label and the error it wraps.
\<close>

datatype oserr = ErrNotExist | ErrOther string

datatype call =
    Stat string
  | EvalSymlinks string
  | Command string string "string list"
  | RemoveAll string
  | WriteFile string string
  | Sleep

type_synonym reply = "oserr + string"
type_synonym event = "call \<times> reply"
type_synonym trace = "event list"

text \<open>
  \<open>os_call\<close> answers the calls above. \<open>filepath_Rel\<close> and \<open>fmt_q\<close> are the two pure
  library functions whose result the program passes on without looking at it:
  \<open>filepath.Rel\<close> and the \<open>%q\<close> verb of \<open>fmt.Sprintf\<close>.
\<close>

record env =
  os_call :: "trace \<Rightarrow> call \<Rightarrow> reply"
  filepath_Rel :: "string \<Rightarrow> string \<Rightarrow> reply"
  fmt_q :: "string \<Rightarrow> string"

datatype error = Failed oserr | Errorf string error

definition IsNotExist :: "oserr \<Rightarrow> bool" where
  "IsNotExist e = (e = ErrNotExist)"

definition sys :: "env \<Rightarrow> call \<Rightarrow> trace \<Rightarrow> reply \<times> trace" where
  "sys E c tr = (os_call E tr c, tr @ [(c, os_call E tr c)])"

section \<open>Library functions on strings and paths\<close>

definition HasPrefix :: "string \<Rightarrow> string \<Rightarrow> bool" where
  "HasPrefix s p = (length p \<le> length s \<and> take (length p) s = p)"

definition ContainsAny :: "string \<Rightarrow> string \<Rightarrow> bool" where
  "ContainsAny s chars = list_ex (\<lambda>c. c \<in> set chars) s"

text \<open>\<open>strings.Trim(s, cutset)\<close>: all leading and trailing bytes of the cutset removed.\<close>

definition Trim :: "string \<Rightarrow> string \<Rightarrow> string" where
  "Trim s cutset =
     rev (dropWhile (\<lambda>c. c \<in> set cutset) (rev (dropWhile (\<lambda>c. c \<in> set cutset) s)))"

text \<open>\<open>strings.Split(s, sep)\<close> for a separator of one byte: never the empty list.\<close>

fun Split :: "string \<Rightarrow> char \<Rightarrow> string list" where
  "Split [] sep = [[]]"
| "Split (x # xs) sep =
     (if x = sep then [] # Split xs sep
      else (case Split xs sep of [] \<Rightarrow> [[x]] | w # ws \<Rightarrow> (x # w) # ws))"

fun join_sep :: "string list \<Rightarrow> string \<Rightarrow> string" where
  "join_sep [] sep = []"
| "join_sep [e] sep = e"
| "join_sep (e # es) sep = e @ sep @ join_sep es sep"

fun nat_dec :: "nat \<Rightarrow> string" where
  "nat_dec n =
     (if n < 10 then [char_of (48 + n)]
      else nat_dec (n div 10) @ [char_of (48 + n mod 10)])"

definition Itoa :: "int \<Rightarrow> string" where
  "Itoa i = (if i < 0 then CHR ''-'' # nat_dec (nat (- i)) else nat_dec (nat i))"

text \<open>
  \<open>path.Clean\<close>, element by element: empty elements and \<open>.\<close> are dropped, \<open>..\<close> removes
  the element before it when there is one that is not itself \<open>..\<close>, is dropped at the
  root, and is kept otherwise. \<open>acc\<close> holds the elements kept so far, last first.
\<close>

fun clean_elems :: "bool \<Rightarrow> string list \<Rightarrow> string list \<Rightarrow> string list" where
  "clean_elems rooted acc [] = rev acc"
| "clean_elems rooted acc (e # es) =
     (if e = [] \<or> e = ''.'' then clean_elems rooted acc es
      else if e = ''..'' then
        (case acc of
           [] \<Rightarrow> if rooted then clean_elems rooted [] es else clean_elems rooted [e] es
         | a # acc' \<Rightarrow>
             if a = ''..'' then
               (if rooted then clean_elems rooted acc es else clean_elems rooted (e # acc) es)
             else clean_elems rooted acc' es)
      else clean_elems rooted (e # acc) es)"

definition Clean :: "string \<Rightarrow> string" where
  "Clean p =
     (case p of
        [] \<Rightarrow> ''.''
      | c # _ \<Rightarrow>
          (let rooted = (c = CHR ''/'');
               body = join_sep (clean_elems rooted [] (Split p (CHR ''/''))) ''/'';
               out = (if rooted then CHR ''/'' # body else body)
           in if out = [] then ''.'' else out))"

text \<open>
  \<open>path.Join\<close>: the elements from the first non-empty one on, joined by slashes and
  cleaned; the empty string when every element is empty.
\<close>

definition Join :: "string list \<Rightarrow> string" where
  "Join elem =
     (case dropWhile (\<lambda>e. e = []) elem of
        [] \<Rightarrow> []
      | es \<Rightarrow> Clean (join_sep es ''/''))"

section \<open>Running a command\<close>

text \<open>
  \<open>cmdForLog\<close> formats the command for the log line of \<open>runCommand\<close>, and while doing so
  overwrites, in the slice it was handed, every argument that holds a blank, a tab or a
  newline by its \<open>%q\<close> form. \<open>runCommand\<close> passes its own slice (\<open>args...\<close>), so the
  arguments that reach \<open>exec.Command\<close> are the rewritten ones.
\<close>

definition blanks :: string where
  "blanks = [CHR '' '', CHR 0x09, CHR 0x0A]"

definition cmdForLog_args :: "env \<Rightarrow> string list \<Rightarrow> string list" where
  "cmdForLog_args E args = map (\<lambda>a. if ContainsAny a blanks then fmt_q E a else a) args"

definition runCommand ::
  "env \<Rightarrow> string \<Rightarrow> string \<Rightarrow> string list \<Rightarrow> trace \<Rightarrow> (error + string) \<times> trace" where
  "runCommand E cwd command args tr =
     (case sys E (Command cwd command (cmdForLog_args E args)) tr of
        (Inl e, tr') \<Rightarrow> (Inl (Errorf ''error running command'' (Failed e)), tr')
      | (Inr output, tr') \<Rightarrow> (Inr output, tr'))"

section \<open>The sync engine\<close>

text \<open>
  \<open>SyncOption\<close> as in the source; \<open>Wait\<close> (a float64 number of seconds) only sets how
  long \<open>time.Sleep\<close> sleeps and is left out. Go's \<open>int\<close> is modelled by \<open>int\<close>: the
  only arithmetic on one is \<open>failCount++\<close>, which runs only below \<open>MaxSyncFailures\<close>.
\<close>

record SyncOption =
  Username :: string
  Password :: string
  SSH :: bool
  Repo :: string
  Branch :: string
  Rev :: string
  Depth :: int
  Root :: string
  Dest :: string
  OneTime :: bool
  MaxSyncFailures :: int
  Chmod :: int

definition cloneRepo :: "env \<Rightarrow> SyncOption \<Rightarrow> trace \<Rightarrow> error option \<times> trace" where
  "cloneRepo E opts tr =
     (let args = [''clone'', ''--no-checkout'', ''-b'', Branch opts]
                 @ (if Depth opts \<noteq> 0 then [''--depth'', Itoa (Depth opts)] else [])
                 @ [Repo opts, Root opts]
      in case runCommand E [] ''git'' args tr of
           (Inl e, tr') \<Rightarrow> (Some e, tr')
         | (Inr _, tr') \<Rightarrow> (None, tr'))"

definition hashForRev ::
  "env \<Rightarrow> SyncOption \<Rightarrow> string \<Rightarrow> trace \<Rightarrow> (error + string) \<times> trace" where
  "hashForRev E opts rv tr =
     (case runCommand E (Root opts) ''git'' [''rev-list'', ''-n1'', rv] tr of
        (Inl e, tr') \<Rightarrow> (Inl e, tr')
      | (Inr output, tr') \<Rightarrow> (Inr (Trim output [CHR 0x0A]), tr'))"

definition revIsHash ::
  "env \<Rightarrow> SyncOption \<Rightarrow> string \<Rightarrow> trace \<Rightarrow> (error + bool) \<times> trace" where
  "revIsHash E opts rv tr =
     (case hashForRev E opts rv tr of
        (Inl e, tr') \<Rightarrow> (Inl e, tr')
      | (Inr output, tr') \<Rightarrow> (Inr (HasPrefix output rv), tr'))"

definition remoteHashForRef ::
  "env \<Rightarrow> string \<Rightarrow> string \<Rightarrow> trace \<Rightarrow> (error + string) \<times> trace" where
  "remoteHashForRef E ref gitRoot tr =
     (case runCommand E gitRoot ''git'' [''ls-remote'', ''-q'', ''origin'', ref] tr of
        (Inl e, tr') \<Rightarrow> (Inl e, tr')
      | (Inr output, tr') \<Rightarrow> (Inr (hd (Split output (CHR 0x09))), tr'))"

definition getRevs ::
  "env \<Rightarrow> SyncOption \<Rightarrow> string \<Rightarrow> trace \<Rightarrow> (error + string \<times> string) \<times> trace" where
  "getRevs E opts rv tr =
     (case hashForRev E opts rv tr of
        (Inl e, tr1) \<Rightarrow> (Inl e, tr1)
      | (Inr local, tr1) \<Rightarrow>
          (let ref = (if Rev opts = ''HEAD'' then ''refs/heads/'' @ Branch opts
                      else ''refs/tags/'' @ Rev opts @ ''^{}'')
           in case remoteHashForRef E ref (Root opts) tr1 of
                (Inl e, tr2) \<Rightarrow> (Inl e, tr2)
              | (Inr remote, tr2) \<Rightarrow> (Inr (local, remote), tr2)))"

subsection \<open>Publishing: updateSymlink\<close>

definition updateSymlink ::
  "env \<Rightarrow> string \<Rightarrow> string \<Rightarrow> string \<Rightarrow> trace \<Rightarrow> error option \<times> trace" where
  "updateSymlink E gitRoot link newDir tr =
     (case sys E (EvalSymlinks (Join [gitRoot, link])) tr of (r0, tr0) \<Rightarrow>
        (case (case r0 of Inl e \<Rightarrow> if IsNotExist e then Inr [] else Inl e | Inr d \<Rightarrow> Inr d) of
           Inl e \<Rightarrow> (Some (Errorf ''error accessing symlink'' (Failed e)), tr0)
         | Inr currentDir \<Rightarrow>
             (case filepath_Rel E gitRoot newDir of
                Inl e \<Rightarrow> (Some (Errorf ''error converting to relative path'' (Failed e)), tr0)
              | Inr newDirRelative \<Rightarrow>
                  (case runCommand E gitRoot ''ln'' [''-snf'', newDirRelative, ''tmp-link''] tr0 of
                     (Inl e, tr1) \<Rightarrow> (Some (Errorf ''error creating symlink'' e), tr1)
                   | (Inr _, tr1) \<Rightarrow>
                       (case runCommand E gitRoot ''mv'' [''-T'', ''tmp-link'', link] tr1 of
                          (Inl e, tr2) \<Rightarrow> (Some (Errorf ''error replacing symlink'' e), tr2)
                        | (Inr _, tr2) \<Rightarrow>
                            (if length currentDir > 0 then
                               (case sys E (RemoveAll currentDir) tr2 of
                                  (Inl e, tr3) \<Rightarrow>
                                    (Some (Errorf ''error removing directory'' (Failed e)), tr3)
                                | (Inr _, tr3) \<Rightarrow>
                                    (case runCommand E gitRoot ''git'' [''worktree'', ''prune''] tr3 of
                                       (Inl e, tr4) \<Rightarrow> (Some e, tr4)
                                     | (Inr _, tr4) \<Rightarrow> (None, tr4)))
                             else (None, tr2)))))))"

subsection \<open>Building a worktree: addWorktreeAndSwap\<close>

definition addWorktreeAndSwap ::
  "env \<Rightarrow> SyncOption \<Rightarrow> string \<Rightarrow> trace \<Rightarrow> error option \<times> trace" where
  "addWorktreeAndSwap E opts hash tr =
     (case runCommand E (Root opts) ''git'' [''fetch'', ''--tags'', ''origin'', Branch opts] tr of
        (Inl e, tr1) \<Rightarrow> (Some e, tr1)
      | (Inr _, tr1) \<Rightarrow>
          (let worktreePath = Join [Root opts, ''rev-'' @ hash]
           in case runCommand E (Root opts) ''git''
                     [''worktree'', ''add'', worktreePath, ''origin/'' @ Branch opts] tr1 of
                (Inl e, tr2) \<Rightarrow> (Some e, tr2)
              | (Inr _, tr2) \<Rightarrow>
                  (case filepath_Rel E (Root opts) worktreePath of
                     Inl e \<Rightarrow> (Some (Failed e), tr2)
                   | Inr worktreePathRelative \<Rightarrow>
                       (let gitDirRef =
                              Join [''gitdir: ../.git/worktrees'', worktreePathRelative] @ [CHR 0x0A]
                        in case sys E (WriteFile (Join [worktreePath, ''.git'']) gitDirRef) tr2 of
                             (Inl e, tr3) \<Rightarrow> (Some (Failed e), tr3)
                           | (Inr _, tr3) \<Rightarrow>
                               (case runCommand E worktreePath ''git'' [''reset'', ''--hard'', hash] tr3 of
                                  (Inl e, tr4) \<Rightarrow> (Some e, tr4)
                                | (Inr _, tr4) \<Rightarrow>
                                    (if Chmod opts \<noteq> 0 then
                                       (case runCommand E [] ''chmod''
                                                [''-R'', Itoa (Chmod opts), worktreePath] tr4 of
                                          (Inl e, tr5) \<Rightarrow> (Some e, tr5)
                                        | (Inr _, tr5) \<Rightarrow>
                                            updateSymlink E (Root opts) (Dest opts) worktreePath tr5)
                                     else updateSymlink E (Root opts) (Dest opts) worktreePath tr4))))))"

subsection \<open>One pass: sync\<close>

definition sync :: "env \<Rightarrow> SyncOption \<Rightarrow> trace \<Rightarrow> error option \<times> trace" where
  "sync E opts tr =
     (let target = Join [Repo opts, Dest opts];
          gitRepoPath = Join [target, ''.git'']
      in case sys E (Stat gitRepoPath) tr of
           (Inl err, tr0) \<Rightarrow>
             (if IsNotExist err then
                (case cloneRepo E opts tr0 of
                   (Some e, tr1) \<Rightarrow> (Some e, tr1)
                 | (None, tr1) \<Rightarrow>
                     (case hashForRev E opts (Rev opts) tr1 of
                        (Inl e, tr2) \<Rightarrow> (Some e, tr2)
                      | (Inr hash, tr2) \<Rightarrow> addWorktreeAndSwap E opts hash tr2))
              else (Some (Errorf ''error checking if repo exists'' (Failed err)), tr0))
         | (Inr _, tr0) \<Rightarrow>
             (case getRevs E opts (Rev opts) tr0 of
                (Inl e, tr1) \<Rightarrow> (Some e, tr1)
              | (Inr (local, remote), tr1) \<Rightarrow>
                  (if local \<noteq> remote then addWorktreeAndSwap E opts remote tr1
                   else (None, tr1))))"

section \<open>The poll loop of main\<close>

text \<open>
  An iteration of the \<open>for\<close> loop either ends the process or hands the loop variables to
  the next iteration. \<open>os.Exit(n)\<close> is \<open>Exit n\<close>. \<open>sleepForever\<close> blocks on a channel
  that only an interrupt or kill signal fills and then calls \<open>os.Exit(0)\<close>; it never
  returns to the loop, and is the outcome \<open>SleepForever\<close>.
\<close>

datatype exit = Exit int | SleepForever

record loop =
  initialSync :: bool
  failCount :: int

definition main_iter ::
  "env \<Rightarrow> SyncOption \<Rightarrow> loop \<Rightarrow> trace \<Rightarrow> (exit + loop) \<times> trace" where
  "main_iter E opts ls tr =
     (case sync E opts tr of
        (Some err, tr1) \<Rightarrow>
          (if initialSync ls \<or> failCount ls \<ge> MaxSyncFailures opts then (Inl (Exit 1), tr1)
           else (Inr (ls\<lparr>failCount := failCount ls + 1\<rparr>), snd (sys E Sleep tr1)))
      | (None, tr1) \<Rightarrow>
          (if initialSync ls then
             (case revIsHash E opts (Rev opts) tr1 of
                (Inl err, tr2) \<Rightarrow> (Inl (Exit 1), tr2)
              | (Inr isHash, tr2) \<Rightarrow>
                  (if isHash then (Inl SleepForever, tr2)
                   else if OneTime opts then (Inl (Exit 0), tr2)
                   else (Inr \<lparr>initialSync = False, failCount = 0\<rparr>, snd (sys E Sleep tr2))))
           else (Inr (ls\<lparr>failCount := 0\<rparr>), snd (sys E Sleep tr1))))"

text \<open>
  The loop has no exit of its own, so it is run for a given number of iterations:
  \<open>Inr\<close> is the state of a loop that is still going after that many.
\<close>

fun main_loop ::
  "env \<Rightarrow> SyncOption \<Rightarrow> nat \<Rightarrow> loop \<Rightarrow> trace \<Rightarrow> (exit + loop) \<times> trace" where
  "main_loop E opts 0 ls tr = (Inr ls, tr)"
| "main_loop E opts (Suc n) ls tr =
     (case main_iter E opts ls tr of
        (Inl x, tr') \<Rightarrow> (Inl x, tr')
      | (Inr ls', tr') \<Rightarrow> main_loop E opts n ls' tr')"

definition main :: "env \<Rightarrow> SyncOption \<Rightarrow> nat \<Rightarrow> (exit + loop) \<times> trace" where
  "main E opts n = main_loop E opts n \<lparr>initialSync = True, failCount = 0\<rparr> []"

section \<open>Observations on traces\<close>

text \<open>
  The calls of the publish step, by name: the link that \<open>updateSymlink\<close> creates, the
  rename of that link onto the published name, and the pruning of worktree metadata.
\<close>

definition ln_call :: "env \<Rightarrow> string \<Rightarrow> string \<Rightarrow> call" where
  "ln_call E gitRoot target =
     Command gitRoot ''ln'' (cmdForLog_args E [''-snf'', target, ''tmp-link''])"

definition mv_call :: "env \<Rightarrow> string \<Rightarrow> string \<Rightarrow> call" where
  "mv_call E gitRoot link =
     Command gitRoot ''mv'' (cmdForLog_args E [''-T'', ''tmp-link'', link])"

definition prune_call :: "env \<Rightarrow> string \<Rightarrow> call" where
  "prune_call E gitRoot = Command gitRoot ''git'' (cmdForLog_args E [''worktree'', ''prune''])"

text \<open>The target handed to \<open>ln\<close>: what \<open>filepath.Rel\<close> made of the new directory.\<close>

definition rel_target :: "env \<Rightarrow> string \<Rightarrow> string \<Rightarrow> string" where
  "rel_target E gitRoot newDir = (case filepath_Rel E gitRoot newDir of Inl e \<Rightarrow> [] | Inr t \<Rightarrow> t)"

text \<open>
  A call that retires the previous worktree: the removal of a directory tree, or
  \<open>git worktree prune\<close>.
\<close>

fun removes :: "call \<Rightarrow> bool" where
  "removes (RemoveAll p) = True"
| "removes (Command cwd c args) = (c = ''git'' \<and> args = [''worktree'', ''prune''])"
| "removes _ = False"

text \<open>The event of a completed rename of the temporary link onto the published name.\<close>

definition renamed :: "env \<Rightarrow> string \<Rightarrow> string \<Rightarrow> event \<Rightarrow> bool" where
  "renamed E gitRoot link ev = (fst ev = mv_call E gitRoot link \<and> \<not> isl (snd ev))"

text \<open>
  A failed step of the swap: reading the current link with an error other than
  "does not exist", or a failed \<open>ln\<close> or \<open>mv\<close>.
\<close>

fun step_failed :: "event \<Rightarrow> bool" where
  "step_failed (EvalSymlinks p, Inl e) = (\<not> IsNotExist e)"
| "step_failed (Command cwd c args, Inl e) = (c = ''ln'' \<or> c = ''mv'')"
| "step_failed _ = False"

text \<open>A failed retirement step: the removal or the pruning answered with an error.\<close>

fun cleanup_failed :: "event \<Rightarrow> bool" where
  "cleanup_failed (c, Inl e) = removes c"
| "cleanup_failed (c, Inr out) = False"


text \<open>
  What a run that started at trace \<open>tr\<close> owes when a retirement step fails in it: the
  rename had completed, the run returns an error, and the failed call is its last.
\<close>

definition cf_last ::
  "env \<Rightarrow> string \<Rightarrow> string \<Rightarrow> trace \<Rightarrow> error option \<Rightarrow> trace \<Rightarrow> bool" where
  "cf_last E gitRoot link tr res tr' =
     (\<exists>evs. tr' = tr @ evs \<and>
        (list_ex cleanup_failed evs \<longrightarrow>
           res \<noteq> None \<and> cleanup_failed (last evs) \<and> list_ex (renamed E gitRoot link) evs))"

text \<open>A call of the \<open>ln\<close> command.\<close>

fun is_ln :: "call \<Rightarrow> bool" where
  "is_ln (Command cwd c args) = (c = ''ln'')"
| "is_ln _ = False"

section \<open>Environments for concrete runs\<close>

text \<open>
  Stand-ins for the two library functions, right on the inputs used below:
  \<open>filepath.Rel\<close> of a path under the base, and \<open>%q\<close> of a printable string without
  quotes or backslashes.
\<close>

definition demo_Rel :: "string \<Rightarrow> string \<Rightarrow> reply" where
  "demo_Rel base targ =
     (if prefix (base @ ''/'') targ then Inr (drop (length base + 1) targ)
      else Inl (ErrOther ''Rel: cannot make relative''))"

definition demo_q :: "string \<Rightarrow> string" where
  "demo_q s = CHR 0x22 # s @ [CHR 0x22]"

text \<open>A tree is published at \<open>/git/rev-old\<close> and every call succeeds with no output.\<close>

fun os_all_ok :: "trace \<Rightarrow> call \<Rightarrow> reply" where
  "os_all_ok tr (EvalSymlinks p) = Inr ''/git/rev-old''"
| "os_all_ok tr c = Inr []"

definition env_all_ok :: env where
  "env_all_ok = \<lparr>os_call = os_all_ok, filepath_Rel = demo_Rel, fmt_q = demo_q\<rparr>"



text \<open>
  A first pass over a root where a tree is already published and cannot be removed:
  the marker that \<open>sync\<close> looks for is absent, \<open>git rev-list\<close> prints a hash, and
  \<open>os.RemoveAll\<close> fails.
\<close>

fun os_rm_fails :: "trace \<Rightarrow> call \<Rightarrow> reply" where
  "os_rm_fails tr (Stat p) = Inl ErrNotExist"
| "os_rm_fails tr (EvalSymlinks p) = Inr ''/git/rev-old''"
| "os_rm_fails tr (RemoveAll p) = Inl (ErrOther ''device or resource busy'')"
| "os_rm_fails tr (Command cwd c args) =
     (if take 1 args = [''rev-list''] then Inr (''5ca1ab1e'' @ [CHR 0x0A]) else Inr [])"
| "os_rm_fails tr c = Inr []"

definition env_rm_fails :: env where
  "env_rm_fails = \<lparr>os_call = os_rm_fails, filepath_Rel = demo_Rel, fmt_q = demo_q\<rparr>"

text \<open>
  A git that works against a remote that never changes: \<open>git clone\<close> succeeds once and
  fails on a root that is already cloned, the clone lives under \<open>/git\<close>, and every
  revision resolves, locally and on the remote, to the one commit \<open>5ca1ab1e\<close>. The
  published link exists once an \<open>mv\<close> has completed.
\<close>

fun is_clone_ok :: "event \<Rightarrow> bool" where
  "is_clone_ok (Command cwd c args, Inr out) = (c = ''git'' \<and> take 1 args = [''clone''])"
| "is_clone_ok _ = False"

fun is_mv_ok :: "event \<Rightarrow> bool" where
  "is_mv_ok (Command cwd c args, Inr out) = (c = ''mv'')"
| "is_mv_ok _ = False"

fun os_git :: "trace \<Rightarrow> call \<Rightarrow> reply" where
  "os_git tr (Stat p) =
     (if list_ex is_clone_ok tr \<and> prefix ''/git/'' p then Inr [] else Inl ErrNotExist)"
| "os_git tr (EvalSymlinks p) =
     (if list_ex is_mv_ok tr then Inr ''/git/rev-5ca1ab1e'' else Inl ErrNotExist)"
| "os_git tr (Command cwd c args) =
     (if take 1 args = [''clone''] then
        (if list_ex is_clone_ok tr then Inl (ErrOther ''exit status 128'') else Inr [])
      else if take 1 args = [''rev-list''] then Inr (''5ca1ab1e'' @ [CHR 0x0A])
      else if take 1 args = [''ls-remote''] then
        Inr (''5ca1ab1e'' @ [CHR 0x09] @ ''refs/heads/master'' @ [CHR 0x0A])
      else Inr [])"
| "os_git tr c = Inr []"

definition env_git :: env where
  "env_git = \<lparr>os_call = os_git, filepath_Rel = demo_Rel, fmt_q = demo_q\<rparr>"

text \<open>A root that holds a clone from the start; cloning into it again fails.\<close>

fun os_local_copy :: "trace \<Rightarrow> call \<Rightarrow> reply" where
  "os_local_copy tr (Stat p) = (if prefix ''/git/'' p then Inr [] else Inl ErrNotExist)"
| "os_local_copy tr (Command cwd c args) =
     (if take 1 args = [''clone''] then Inl (ErrOther ''exit status 128'') else Inr [])"
| "os_local_copy tr c = Inr []"

definition env_local_copy :: env where
  "env_local_copy = \<lparr>os_call = os_local_copy, filepath_Rel = demo_Rel, fmt_q = demo_q\<rparr>"

text \<open>Nothing works: every call fails.\<close>

definition env_down :: env where
  "env_down =
     \<lparr>os_call = (\<lambda>tr c. Inl (ErrOther ''input/output error'')), filepath_Rel = demo_Rel,
      fmt_q = demo_q\<rparr>"

text \<open>Options as a deployment would set them: the defaults, a repository and a root.\<close>

definition opts_demo :: SyncOption where
  "opts_demo =
     \<lparr>Username = [], Password = [], SSH = False, Repo = ''https://example.com/app.git'',
      Branch = ''master'', Rev = ''HEAD'', Depth = 0, Root = ''/git'', Dest = ''app'',
      OneTime = False, MaxSyncFailures = 2, Chmod = 0\<rparr>"

text \<open>The same, pinned to a commit and asked to run once.\<close>

definition opts_pinned :: SyncOption where
  "opts_pinned = opts_demo\<lparr>Rev := ''5ca1ab1e'', OneTime := True\<rparr>"

text \<open>The first options again, asked to run once.\<close>

definition opts_once :: SyncOption where
  "opts_once = opts_demo\<lparr>OneTime := True\<rparr>"

section \<open>Facts about the library functions\<close>

lemma Split_not_Nil: "Split s sep \<noteq> []"
  by (induction s) (auto split: list.splits)

lemma hd_Split: "hd (Split s sep) = takeWhile (\<lambda>c. c \<noteq> sep) s"
  using Split_not_Nil by (induction s) (auto split: list.splits)

lemma HasPrefix_prefix: "HasPrefix s p = prefix p s"
  unfolding HasPrefix_def prefix_def
  by (metis append_eq_conv_conj append_take_drop_id length_append le_add1)

lemma cmdForLog_args_plain:
  "list_all (\<lambda>a. \<not> ContainsAny a blanks) args \<Longrightarrow> cmdForLog_args E args = args"
  by (induction args) (auto simp: cmdForLog_args_def)

lemma cmdForLog_args_prune [simp]:
  "cmdForLog_args E [''worktree'', ''prune''] = [''worktree'', ''prune'']"
  by (simp add: cmdForLog_args_def ContainsAny_def blanks_def)

section \<open>Symbolic execution of calls\<close>

text \<open>
  A call either fails or succeeds; a property of a program that makes the call is a
  property of both continuations. As split rules these let the simplifier walk the
  paths of a program one call at a time.
\<close>

lemma sys_split:
  "P (sys E c tr) =
     ((\<forall>e. os_call E tr c = Inl e \<longrightarrow> P (Inl e, tr @ [(c, Inl e)])) \<and>
      (\<forall>out. os_call E tr c = Inr out \<longrightarrow> P (Inr out, tr @ [(c, Inr out)])))"
  by (cases "os_call E tr c") (simp_all add: sys_def)

lemma runCommand_split:
  "P (runCommand E cwd c args tr) =
     ((\<forall>e. os_call E tr (Command cwd c (cmdForLog_args E args)) = Inl e \<longrightarrow>
          P (Inl (Errorf ''error running command'' (Failed e)),
             tr @ [(Command cwd c (cmdForLog_args E args), Inl e)])) \<and>
      (\<forall>out. os_call E tr (Command cwd c (cmdForLog_args E args)) = Inr out \<longrightarrow>
          P (Inr out, tr @ [(Command cwd c (cmdForLog_args E args), Inr out)])))"
  by (cases "os_call E tr (Command cwd c (cmdForLog_args E args))")
    (simp_all add: runCommand_def sys_def)

lemma renamed_simps [simp]:
  "renamed E g l (mv_call E g l, r) = (\<not> isl r)"
  "renamed E g l (EvalSymlinks p, r) = False"
  "renamed E g l (RemoveAll p, r) = False"
  "renamed E g l (ln_call E g t, r) = False"
  "renamed E g l (prune_call E g, r) = False"
  by (simp_all add: renamed_def mv_call_def ln_call_def prune_call_def)

lemma removes_simps [simp]:
  "\<not> removes (mv_call E g l)" "\<not> removes (ln_call E g t)" "removes (prune_call E g)"
  by (simp_all add: mv_call_def ln_call_def prune_call_def)

lemma step_failed_simps [simp]:
  "step_failed (mv_call E g l, r) = isl r" "step_failed (ln_call E g t, r) = isl r"
  "step_failed (prune_call E g, r) = False"
  by (cases r; simp add: mv_call_def ln_call_def prune_call_def)+


section \<open>The publish step\<close>

lemmas publish_folds = ln_call_def [symmetric] mv_call_def [symmetric] prune_call_def [symmetric]



lemma updateSymlink_failed:
  "case updateSymlink E g l n tr of (res, tr') \<Rightarrow>
     list_ex step_failed (drop (length tr) tr') \<or> isl (filepath_Rel E g n) \<longrightarrow>
     res \<noteq> None \<and>
     \<not> list_ex (\<lambda>ev. removes (fst ev)) (drop (length tr) tr') \<and>
     \<not> list_ex (renamed E g l) (drop (length tr) tr') \<and>
     prefix (map fst (drop (length tr) tr'))
       [EvalSymlinks (Join [g, l]), ln_call E g (rel_target E g n), mv_call E g l]"
  by (simp add: updateSymlink_def publish_folds IsNotExist_def rel_target_def
      split: sys_split runCommand_split sum.split)



lemma run_all_ok:
  "updateSymlink env_all_ok ''/git'' ''app'' ''/git/rev-new'' [] =
     (None,
      [(EvalSymlinks ''/git/app'', Inr ''/git/rev-old''),
       (Command ''/git'' ''ln'' [''-snf'', ''rev-new'', ''tmp-link''], Inr []),
       (Command ''/git'' ''mv'' [''-T'', ''tmp-link'', ''app''], Inr []),
       (RemoveAll ''/git/rev-old'', Inr []),
       (Command ''/git'' ''git'' [''worktree'', ''prune''], Inr [])])"
  by code_simp

lemma plain_args [simp]:
  "cmdForLog_args E [''-T'', ''tmp-link'', ''app''] = [''-T'', ''tmp-link'', ''app'']"
  "cmdForLog_args E [''-snf'', ''rev-new'', ''tmp-link''] = [''-snf'', ''rev-new'', ''tmp-link'']"
  by (simp_all add: cmdForLog_args_def ContainsAny_def blanks_def)


section \<open>Failures while retiring the previous worktree\<close>

lemma cmdForLog_args_neq [simp]:
  "length args \<noteq> length xs \<Longrightarrow> (cmdForLog_args E args = xs) = False"
  by (auto simp: cmdForLog_args_def)

lemma cleanup_failed_simps [simp]:
  "length args \<noteq> 2 \<Longrightarrow> cleanup_failed (Command cwd c (cmdForLog_args E args), r) = False"
  "c \<noteq> ''git'' \<Longrightarrow> cleanup_failed (Command cwd c args', r) = False"
  "cleanup_failed (Stat p, r) = False"
  "cleanup_failed (WriteFile p d, r) = False"
  "cleanup_failed (EvalSymlinks p, r) = False"
  "cleanup_failed (Sleep, r) = False"
  by (cases r; auto simp: cmdForLog_args_def)+

lemma cleanup_failed_publish [simp]:
  "cleanup_failed (mv_call E g l, r) = False" "cleanup_failed (ln_call E g t, r) = False"
  "cleanup_failed (prune_call E g, r) = isl r"
  by (cases r; simp add: mv_call_def ln_call_def prune_call_def)+

lemma cf_last_early [simp]:
  "\<not> list_ex cleanup_failed evs \<Longrightarrow> cf_last E g l tr res (tr @ evs)"
  by (simp add: cf_last_def)

lemma cf_last_refl [simp]: "cf_last E g l tr res tr"
  by (simp add: cf_last_def)

lemma cf_last_frame:
  "cf_last E g l (tr @ pre) res tr' \<Longrightarrow> \<not> list_ex cleanup_failed pre \<Longrightarrow> cf_last E g l tr res tr'"
  unfolding cf_last_def by (auto simp: last_append)

lemma updateSymlink_cf_last:
  "case updateSymlink E g l n tr of (res, tr') \<Rightarrow> cf_last E g l tr res tr'"
  by (simp add: updateSymlink_def cf_last_def publish_folds
      split: sys_split runCommand_split sum.split)

lemma updateSymlink_cf_wp:
  assumes "\<And>res tr'. cf_last E g l tr res tr' \<Longrightarrow> R (res, tr')"
  shows "R (updateSymlink E g l n tr)"
  using assms updateSymlink_cf_last [where E = E and g = g and l = l and n = n and tr = tr]
  by (cases "updateSymlink E g l n tr") simp

lemma addWorktreeAndSwap_cf_last:
  "case addWorktreeAndSwap E opts hash tr of (res, tr') \<Rightarrow>
     cf_last E (Root opts) (Dest opts) tr res tr'"
  apply (simp add: addWorktreeAndSwap_def Let_def split: sys_split runCommand_split sum.split)
  apply (intro conjI allI impI)
   apply (rule updateSymlink_cf_wp, simp, erule cf_last_frame, simp)+
  done

lemma addWorktreeAndSwap_cf_wp:
  assumes "\<And>res tr'. cf_last E (Root opts) (Dest opts) tr res tr' \<Longrightarrow> R (res, tr')"
  shows "R (addWorktreeAndSwap E opts hash tr)"
  using assms addWorktreeAndSwap_cf_last [where E = E and opts = opts and hash = hash and tr = tr]
  by (cases "addWorktreeAndSwap E opts hash tr") simp

lemma sync_cf_last:
  "case sync E opts tr of (res, tr') \<Rightarrow> cf_last E (Root opts) (Dest opts) tr res tr'"
  apply (simp add: sync_def cloneRepo_def hashForRev_def getRevs_def remoteHashForRef_def Let_def
      split: sys_split runCommand_split sum.split)
  apply (intro conjI allI impI)
   apply (rule addWorktreeAndSwap_cf_wp, simp, erule cf_last_frame, simp)+
  done

text \<open>
  C4, as the claim states it, fails: with the link renamed and the old tree impossible
  to remove, \<open>updateSymlink\<close> returns the error of the removal.
\<close>

theorem updateSymlink_returns_cleanup_error:
  "updateSymlink env_rm_fails ''/git'' ''app'' ''/git/rev-new'' [] =
     (Some (Errorf ''error removing directory'' (Failed (ErrOther ''device or resource busy''))),
      [(EvalSymlinks ''/git/app'', Inr ''/git/rev-old''),
       (Command ''/git'' ''ln'' [''-snf'', ''rev-new'', ''tmp-link''], Inr []),
       (Command ''/git'' ''mv'' [''-T'', ''tmp-link'', ''app''], Inr []),
       (RemoveAll ''/git/rev-old'', Inl (ErrOther ''device or resource busy''))])"
  by code_simp

text \<open>
  C4, amended. When a retirement step (removing the previous worktree's directory, or
  pruning the worktree metadata) fails, in \<open>updateSymlink\<close> and so in the \<open>sync\<close> pass
  that publishes through it: the rename of the link had completed, the error is
  returned to the caller, so the pass is reported as failed, and the failed call is the
  last call made, so nothing rolls the published link back.
\<close>

theorem cleanup_failure_is_returned:
  "(updateSymlink E gitRoot link newDir tr = (res, tr') \<and>
      list_ex cleanup_failed (drop (length tr) tr') \<longrightarrow>
        res \<noteq> None \<and> cleanup_failed (last tr') \<and>
        list_ex (renamed E gitRoot link) (drop (length tr) tr')) \<and>
   (sync E opts tr0 = (res0, tr0') \<and> list_ex cleanup_failed (drop (length tr0) tr0') \<longrightarrow>
        res0 \<noteq> None \<and> cleanup_failed (last tr0') \<and>
        list_ex (renamed E (Root opts) (Dest opts)) (drop (length tr0) tr0'))"
proof -
  have publish: "res \<noteq> None \<and> cleanup_failed (last tr') \<and>
      list_ex (renamed E gitRoot link) (drop (length tr) tr')"
    if run: "updateSymlink E gitRoot link newDir tr = (res, tr')"
      and cf: "list_ex cleanup_failed (drop (length tr) tr')"
  proof -
    from updateSymlink_cf_last [where E = E and g = gitRoot and l = link and n = newDir and tr = tr]
      run
    obtain evs where "tr' = tr @ evs"
      and "list_ex cleanup_failed evs \<longrightarrow>
             res \<noteq> None \<and> cleanup_failed (last evs) \<and> list_ex (renamed E gitRoot link) evs"
      unfolding cf_last_def by auto
    with cf show ?thesis
      by (auto simp: last_append)
  qed
  have pass: "res0 \<noteq> None \<and> cleanup_failed (last tr0') \<and>
      list_ex (renamed E (Root opts) (Dest opts)) (drop (length tr0) tr0')"
    if run: "sync E opts tr0 = (res0, tr0')"
      and cf: "list_ex cleanup_failed (drop (length tr0) tr0')"
  proof -
    from sync_cf_last [where E = E and opts = opts and tr = tr0] run
    obtain evs where "tr0' = tr0 @ evs"
      and "list_ex cleanup_failed evs \<longrightarrow>
             res0 \<noteq> None \<and> cleanup_failed (last evs) \<and>
             list_ex (renamed E (Root opts) (Dest opts)) evs"
      unfolding cf_last_def by auto
    with cf show ?thesis
      by (auto simp: last_append)
  qed
  from publish pass show ?thesis by blast
qed

lemma sync_rm_fails:
  "sync env_rm_fails opts_demo [] =
     (Some (Errorf ''error removing directory'' (Failed (ErrOther ''device or resource busy''))),
      [(Stat ''https:/example.com/app.git/app/.git'', Inl ErrNotExist),
       (Command [] ''git''
          [''clone'', ''--no-checkout'', ''-b'', ''master'', ''https://example.com/app.git'', ''/git''],
        Inr []),
       (Command ''/git'' ''git'' [''rev-list'', ''-n1'', ''HEAD''], Inr (''5ca1ab1e'' @ [CHR 0x0A])),
       (Command ''/git'' ''git'' [''fetch'', ''--tags'', ''origin'', ''master''], Inr []),
       (Command ''/git'' ''git'' [''worktree'', ''add'', ''/git/rev-5ca1ab1e'', ''origin/master''],
        Inr []),
       (WriteFile ''/git/rev-5ca1ab1e/.git''
          (''gitdir: ../.git/worktrees/rev-5ca1ab1e'' @ [CHR 0x0A]), Inr []),
       (Command ''/git/rev-5ca1ab1e'' ''git'' [''reset'', ''--hard'', ''5ca1ab1e''], Inr []),
       (EvalSymlinks ''/git/app'', Inr ''/git/rev-old''),
       (Command ''/git'' ''ln'' [''-snf'', ''rev-5ca1ab1e'', ''tmp-link''], Inr []),
       (Command ''/git'' ''mv'' [''-T'', ''tmp-link'', ''app''], Inr []),
       (RemoveAll ''/git/rev-old'', Inl (ErrOther ''device or resource busy''))])"
  by code_simp

theorem cleanup_failure_is_returned_witness:
  "list_ex cleanup_failed (snd (sync env_rm_fails opts_demo [])) \<and>
   fst (sync env_rm_fails opts_demo []) \<noteq> None \<and>
   cleanup_failed (last (snd (sync env_rm_fails opts_demo []))) \<and>
   list_ex cleanup_failed (snd (updateSymlink env_rm_fails ''/git'' ''app'' ''/git/rev-new'' [])) \<and>
   fst (updateSymlink env_rm_fails ''/git'' ''app'' ''/git/rev-new'' []) \<noteq> None \<and>
   cleanup_failed (last (snd (updateSymlink env_rm_fails ''/git'' ''app'' ''/git/rev-new'' [])))"
proof -
  have u: "updateSymlink env_rm_fails ''/git'' ''app'' ''/git/rev-new'' [] =
      (fst (updateSymlink env_rm_fails ''/git'' ''app'' ''/git/rev-new'' []),
       snd (updateSymlink env_rm_fails ''/git'' ''app'' ''/git/rev-new'' []))"
    by simp
  have s: "sync env_rm_fails opts_demo [] =
      (fst (sync env_rm_fails opts_demo []), snd (sync env_rm_fails opts_demo []))"
    by simp
  have cu: "list_ex cleanup_failed
      (drop (length ([] :: trace)) (snd (updateSymlink env_rm_fails ''/git'' ''app'' ''/git/rev-new'' [])))"
    by code_simp
  have cs: "list_ex cleanup_failed (drop (length ([] :: trace)) (snd (sync env_rm_fails opts_demo [])))"
    by (simp add: sync_rm_fails)
  from cleanup_failure_is_returned
    [where E = env_rm_fails and gitRoot = "''/git''" and link = "''app''"
       and newDir = "''/git/rev-new''" and tr = "[]" and opts = opts_demo and ?tr0.0 = "[]",
     THEN conjunct1, rule_format, OF conjI, OF u cu]
    cleanup_failure_is_returned
    [where E = env_rm_fails and gitRoot = "''/git''" and link = "''app''"
       and newDir = "''/git/rev-new''" and tr = "[]" and opts = opts_demo and ?tr0.0 = "[]",
     THEN conjunct2, rule_format, OF conjI, OF s cs]
    cu cs
  show ?thesis by simp
qed

section \<open>The temporary link\<close>

lemma is_ln_simps [simp]:
  "is_ln (ln_call E g t)" "\<not> is_ln (mv_call E g l)" "\<not> is_ln (prune_call E g)"
  by (simp_all add: ln_call_def mv_call_def prune_call_def)

lemma updateSymlink_ln:
  "case updateSymlink E g l n tr of (res, tr') \<Rightarrow>
     list_all (\<lambda>ev. is_ln (fst ev) \<longrightarrow>
                 fst ev = ln_call E g (rel_target E g n) \<and> \<not> isl (filepath_Rel E g n))
       (drop (length tr) tr') \<and>
     (list_ex (renamed E g l) (drop (length tr) tr') \<longrightarrow>
        fst (drop (length tr) tr' ! Suc 0) = ln_call E g (rel_target E g n) \<and>
        \<not> isl (snd (drop (length tr) tr' ! Suc 0)))"
  by (simp add: updateSymlink_def publish_folds rel_target_def
      split: sys_split runCommand_split sum.split)

text \<open>
  C8, as the claim states it, fails in its first half: two publish operations in a row,
  for two different worktrees, create their temporary link under the same name.
\<close>

theorem tmp_link_name_is_reused:
  "snd (updateSymlink env_all_ok ''/git'' ''app'' ''/git/rev-1'' []) ! 1 =
     (Command ''/git'' ''ln'' [''-snf'', ''rev-1'', ''tmp-link''], Inr []) \<and>
   snd (updateSymlink env_all_ok ''/git'' ''app'' ''/git/rev-2''
          (snd (updateSymlink env_all_ok ''/git'' ''app'' ''/git/rev-1'' []))) ! 6 =
     (Command ''/git'' ''ln'' [''-snf'', ''rev-2'', ''tmp-link''], Inr [])"
  by code_simp

text \<open>
  C8, amended. Every \<open>ln\<close> command that a publish operation runs is run in the root
  directory and creates the link under the fixed name \<open>tmp-link\<close> (with \<open>-f\<close>, which
  replaces a link left there), and the link's target is the path that \<open>filepath.Rel\<close>
  gives for the new worktree relative to the root (in its \<open>%q\<close> form when it holds a
  blank), not the path as passed. A completed rename was preceded by that \<open>ln\<close>,
  completed, as the second call of the operation.
\<close>

theorem tmp_link_fixed_name_relative_target:
  assumes run: "updateSymlink E gitRoot link newDir tr = (res, tr')"
  shows "(\<forall>ev \<in> set (drop (length tr) tr'). \<forall>cwd args. fst ev = Command cwd ''ln'' args \<longrightarrow>
            cwd = gitRoot \<and>
            (\<exists>target. filepath_Rel E gitRoot newDir = Inr target \<and>
               args = [''-snf'', if ContainsAny target blanks then fmt_q E target else target,
                       ''tmp-link''])) \<and>
         (list_ex (renamed E gitRoot link) (drop (length tr) tr') \<longrightarrow>
            (\<exists>target out. filepath_Rel E gitRoot newDir = Inr target \<and>
               drop (length tr) tr' ! 1 =
                 (Command gitRoot ''ln''
                    [''-snf'', if ContainsAny target blanks then fmt_q E target else target,
                     ''tmp-link''], Inr out)))"
proof -
  let ?evs = "drop (length tr) tr'"
  let ?ln = "ln_call E gitRoot (rel_target E gitRoot newDir)"
  from updateSymlink_ln [where E = E and g = gitRoot and l = link and n = newDir and tr = tr] run
  have all: "list_all (\<lambda>ev. is_ln (fst ev) \<longrightarrow>
                 fst ev = ?ln \<and> \<not> isl (filepath_Rel E gitRoot newDir)) ?evs"
    and second: "list_ex (renamed E gitRoot link) ?evs \<longrightarrow>
        fst (?evs ! Suc 0) = ?ln \<and> \<not> isl (snd (?evs ! Suc 0))"
    by simp_all
  have shape: "\<exists>target. filepath_Rel E gitRoot newDir = Inr target \<and>
      ?ln = Command gitRoot ''ln''
             [''-snf'', if ContainsAny target blanks then fmt_q E target else target, ''tmp-link'']"
    if "\<not> isl (filepath_Rel E gitRoot newDir)"
    using that
    by (cases "filepath_Rel E gitRoot newDir")
      (simp_all add: ln_call_def rel_target_def cmdForLog_args_def ContainsAny_def blanks_def)
  have first: "\<forall>ev \<in> set ?evs. \<forall>cwd args. fst ev = Command cwd ''ln'' args \<longrightarrow>
      cwd = gitRoot \<and>
      (\<exists>target. filepath_Rel E gitRoot newDir = Inr target \<and>
         args = [''-snf'', if ContainsAny target blanks then fmt_q E target else target,
                 ''tmp-link''])"
  proof (intro ballI allI impI)
    fix ev cwd args
    assume ev: "ev \<in> set ?evs" and ln: "fst ev = Command cwd ''ln'' args"
    from all ev have "is_ln (fst ev) \<longrightarrow> fst ev = ?ln \<and> \<not> isl (filepath_Rel E gitRoot newDir)"
      by (simp add: list_all_iff)
    with ln have eq: "Command cwd ''ln'' args = ?ln" and ok: "\<not> isl (filepath_Rel E gitRoot newDir)"
      by simp_all
    from shape [OF ok] eq show "cwd = gitRoot \<and>
      (\<exists>target. filepath_Rel E gitRoot newDir = Inr target \<and>
         args = [''-snf'', if ContainsAny target blanks then fmt_q E target else target,
                 ''tmp-link''])"
      by auto
  qed
  have last: "\<exists>target out. filepath_Rel E gitRoot newDir = Inr target \<and>
      ?evs ! 1 =
        (Command gitRoot ''ln''
           [''-snf'', if ContainsAny target blanks then fmt_q E target else target, ''tmp-link''],
         Inr out)"
    if sw: "list_ex (renamed E gitRoot link) ?evs"
  proof -
    from second sw have f: "fst (?evs ! Suc 0) = ?ln" and s: "\<not> isl (snd (?evs ! Suc 0))"
      by simp_all
    from s obtain out where out: "snd (?evs ! Suc 0) = Inr out"
      by (cases "snd (?evs ! Suc 0)") simp_all
    from sw all have "\<not> isl (filepath_Rel E gitRoot newDir)"
      using updateSymlink_failed [where E = E and g = gitRoot and l = link and n = newDir and tr = tr]
        run
      by auto
    from shape [OF this] f out show ?thesis
      by (metis One_nat_def prod.collapse)
  qed
  from first last show ?thesis by blast
qed

theorem tmp_link_fixed_name_relative_target_witness:
  "(Command ''/git'' ''ln'' [''-snf'', ''rev-new'', ''tmp-link''], Inr []) \<in>
     set (snd (updateSymlink env_all_ok ''/git'' ''app'' ''/git/rev-new'' [])) \<and>
   filepath_Rel env_all_ok ''/git'' ''/git/rev-new'' = Inr ''rev-new'' \<and>
   list_ex (renamed env_all_ok ''/git'' ''app'')
     (snd (updateSymlink env_all_ok ''/git'' ''app'' ''/git/rev-new'' [])) \<and>
   snd (updateSymlink env_all_ok ''/git'' ''app'' ''/git/rev-new'' []) ! 1 =
     (Command ''/git'' ''ln'' [''-snf'', ''rev-new'', ''tmp-link''], Inr [])"
proof -
  have mem: "(Command ''/git'' ''ln'' [''-snf'', ''rev-new'', ''tmp-link''], Inr []) \<in>
      set (drop (length ([] :: trace)) (snd (updateSymlink env_all_ok ''/git'' ''app'' ''/git/rev-new'' [])))"
    by (simp add: run_all_ok)
  have rel: "filepath_Rel env_all_ok ''/git'' ''/git/rev-new'' = Inr ''rev-new''"
    by code_simp
  have sw: "list_ex (renamed env_all_ok ''/git'' ''app'')
      (drop (length ([] :: trace)) (snd (updateSymlink env_all_ok ''/git'' ''app'' ''/git/rev-new'' [])))"
    by code_simp
  have run: "updateSymlink env_all_ok ''/git'' ''app'' ''/git/rev-new'' [] =
      (fst (updateSymlink env_all_ok ''/git'' ''app'' ''/git/rev-new'' []),
       snd (updateSymlink env_all_ok ''/git'' ''app'' ''/git/rev-new'' []))"
    by simp
  from tmp_link_fixed_name_relative_target [OF run, THEN conjunct2, rule_format, OF sw]
  obtain target out where "filepath_Rel env_all_ok ''/git'' ''/git/rev-new'' = Inr target"
    and "drop (length ([] :: trace)) (snd (updateSymlink env_all_ok ''/git'' ''app'' ''/git/rev-new'' [])) ! 1 =
      (Command ''/git'' ''ln''
         [''-snf'', if ContainsAny target blanks then fmt_q env_all_ok target else target,
          ''tmp-link''], Inr out)"
    by blast
  with rel have "snd (updateSymlink env_all_ok ''/git'' ''app'' ''/git/rev-new'' []) ! 1 =
      (Command ''/git'' ''ln'' [''-snf'', ''rev-new'', ''tmp-link''], Inr out)"
    by (simp add: ContainsAny_def blanks_def)
  then have "snd (updateSymlink env_all_ok ''/git'' ''app'' ''/git/rev-new'' []) ! 1 =
      (Command ''/git'' ''ln'' [''-snf'', ''rev-new'', ''tmp-link''], Inr [])"
    by (simp add: run_all_ok)
  with mem rel sw show ?thesis by simp
qed

section \<open>Resolving revisions\<close>

text \<open>
  C5, as the claim states it, fails: \<open>git ls-remote -q origin ref\<close> ends with status 0
  and prints nothing for a ref that the remote does not have, and \<open>remoteHashForRef\<close>
  then returns the empty string as a hash, with no error.
\<close>

theorem remoteHashForRef_empty_success:
  "remoteHashForRef env_all_ok ''refs/tags/v9^{}'' ''/git'' [] =
     (Inr [],
      [(Command ''/git'' ''git'' [''ls-remote'', ''-q'', ''origin'', ''refs/tags/v9^{}''], Inr [])])"
  by code_simp

text \<open>
  C5, amended. \<open>remoteHashForRef\<close> fails exactly when the \<open>git ls-remote\<close> command
  fails, as it does for a remote that cannot be reached. When the command succeeds the
  result is a success that carries the output up to its first tab, whatever that text
  is: it is the empty string when the command printed nothing.
\<close>

theorem remoteHashForRef_result:
  "remoteHashForRef E ref gitRoot tr =
     (case os_call E tr
             (Command gitRoot ''git'' (cmdForLog_args E [''ls-remote'', ''-q'', ''origin'', ref])) of
        Inl e \<Rightarrow>
          (Inl (Errorf ''error running command'' (Failed e)),
           tr @ [(Command gitRoot ''git''
                    (cmdForLog_args E [''ls-remote'', ''-q'', ''origin'', ref]), Inl e)])
      | Inr out \<Rightarrow>
          (Inr (takeWhile (\<lambda>c. c \<noteq> CHR 0x09) out),
           tr @ [(Command gitRoot ''git''
                    (cmdForLog_args E [''ls-remote'', ''-q'', ''origin'', ref]), Inr out)]))"
  by (simp add: remoteHashForRef_def runCommand_def sys_def hd_Split split: sum.splits)

theorem remoteHashForRef_result_witness:
  "fst (remoteHashForRef env_git ''refs/heads/master'' ''/git'' []) = Inr ''5ca1ab1e'' \<and>
   fst (remoteHashForRef env_down ''refs/heads/master'' ''/git'' []) =
     Inl (Errorf ''error running command'' (Failed (ErrOther ''input/output error'')))"
  using remoteHashForRef_result [of env_git "''refs/heads/master''" "''/git''" "[]"]
    remoteHashForRef_result [of env_down "''refs/heads/master''" "''/git''" "[]"]
  by (simp add: env_git_def env_down_def cmdForLog_args_def ContainsAny_def blanks_def)

text \<open>
  C7. Whenever \<open>hashForRev\<close> resolves \<open>rev\<close> to \<open>h\<close>, \<open>revIsHash rev\<close> returns true
  exactly when \<open>rev\<close> is a prefix of \<open>h\<close>: true when \<open>rev\<close> is \<open>h\<close> itself, false
  when \<open>h\<close> does not begin with \<open>rev\<close>.
\<close>

theorem revIsHash_iff_prefix:
  assumes "hashForRev E opts rv tr = (Inr h, tr')"
  shows "revIsHash E opts rv tr = (Inr (prefix rv h), tr') \<and>
         (rv = h \<longrightarrow> revIsHash E opts rv tr = (Inr True, tr')) \<and>
         (\<not> prefix rv h \<longrightarrow> revIsHash E opts rv tr = (Inr False, tr'))"
  using assms by (auto simp: revIsHash_def HasPrefix_prefix)

lemma hashForRev_git:
  "hashForRev env_git opts_demo ''5ca1ab1e'' [] =
     (Inr ''5ca1ab1e'',
      [(Command ''/git'' ''git'' [''rev-list'', ''-n1'', ''5ca1ab1e''], Inr (''5ca1ab1e'' @ [CHR 0x0A]))])"
  "hashForRev env_git opts_demo ''HEAD'' [] =
     (Inr ''5ca1ab1e'',
      [(Command ''/git'' ''git'' [''rev-list'', ''-n1'', ''HEAD''], Inr (''5ca1ab1e'' @ [CHR 0x0A]))])"
  by code_simp+

theorem revIsHash_iff_prefix_witness:
  "fst (revIsHash env_git opts_demo ''5ca1ab1e'' []) = Inr True \<and>
   \<not> prefix ''HEAD'' ''5ca1ab1e'' \<and>
   fst (revIsHash env_git opts_demo ''HEAD'' []) = Inr False"
  using revIsHash_iff_prefix [OF hashForRev_git(1)] revIsHash_iff_prefix [OF hashForRev_git(2)]
  by simp

text \<open>
  C10. Once \<open>getRevs\<close> has resolved its argument locally, its next and last call asks
  the remote, with \<open>git ls-remote -q origin\<close> run in the root, for one ref:
  \<open>refs/heads/\<close> followed by the configured branch when the configured revision is
  exactly \<open>HEAD\<close>, and \<open>refs/tags/\<close>, the configured revision and \<open>^{}\<close> for every
  other configured revision. The ref is built from the options alone: two calls of
  \<open>getRevs\<close> with different arguments ask for the same ref. (As every argument of a
  command, the ref reaches \<open>git\<close> in its \<open>%q\<close> form if it holds a blank.)
\<close>

theorem getRevs_remote_ref:
  assumes "hashForRev E opts rv tr = (Inr l, tr1)"
  shows "(\<exists>r. snd (getRevs E opts rv tr) =
            tr1 @ [(Command (Root opts) ''git''
                      (cmdForLog_args E
                         [''ls-remote'', ''-q'', ''origin'',
                          if Rev opts = ''HEAD'' then ''refs/heads/'' @ Branch opts
                          else ''refs/tags/'' @ Rev opts @ ''^{}'']), r)]) \<and>
         (\<not> ContainsAny (Rev opts) blanks \<and> \<not> ContainsAny (Branch opts) blanks \<longrightarrow>
            cmdForLog_args E
              [''ls-remote'', ''-q'', ''origin'',
               if Rev opts = ''HEAD'' then ''refs/heads/'' @ Branch opts
               else ''refs/tags/'' @ Rev opts @ ''^{}''] =
              [''ls-remote'', ''-q'', ''origin'',
               if Rev opts = ''HEAD'' then ''refs/heads/'' @ Branch opts
               else ''refs/tags/'' @ Rev opts @ ''^{}'']) \<and>
         (\<forall>rv' tr' l' tr1'. hashForRev E opts rv' tr' = (Inr l', tr1') \<longrightarrow>
            fst (last (snd (getRevs E opts rv' tr'))) = fst (last (snd (getRevs E opts rv tr))))"
proof (intro conjI)
  show "\<exists>r. snd (getRevs E opts rv tr) =
            tr1 @ [(Command (Root opts) ''git''
                      (cmdForLog_args E
                         [''ls-remote'', ''-q'', ''origin'',
                          if Rev opts = ''HEAD'' then ''refs/heads/'' @ Branch opts
                          else ''refs/tags/'' @ Rev opts @ ''^{}'']), r)]"
    using assms
    by (simp add: getRevs_def remoteHashForRef_def runCommand_def sys_def Let_def split: sum.splits)
  show "\<not> ContainsAny (Rev opts) blanks \<and> \<not> ContainsAny (Branch opts) blanks \<longrightarrow>
            cmdForLog_args E
              [''ls-remote'', ''-q'', ''origin'',
               if Rev opts = ''HEAD'' then ''refs/heads/'' @ Branch opts
               else ''refs/tags/'' @ Rev opts @ ''^{}''] =
              [''ls-remote'', ''-q'', ''origin'',
               if Rev opts = ''HEAD'' then ''refs/heads/'' @ Branch opts
               else ''refs/tags/'' @ Rev opts @ ''^{}'']"
    by (simp add: cmdForLog_args_def ContainsAny_def blanks_def)
  show "\<forall>rv' tr' l' tr1'. hashForRev E opts rv' tr' = (Inr l', tr1') \<longrightarrow>
            fst (last (snd (getRevs E opts rv' tr'))) = fst (last (snd (getRevs E opts rv tr)))"
    using assms
    by (simp add: getRevs_def remoteHashForRef_def runCommand_def sys_def Let_def split: sum.splits)
qed

theorem getRevs_remote_ref_witness:
  "snd (getRevs env_git opts_demo ''HEAD'' []) ! 1 =
     (Command ''/git'' ''git'' [''ls-remote'', ''-q'', ''origin'', ''refs/heads/master''],
      Inr (''5ca1ab1e'' @ [CHR 0x09] @ ''refs/heads/master'' @ [CHR 0x0A])) \<and>
   fst (last (snd (getRevs env_git opts_demo ''5ca1ab1e'' []))) =
     Command ''/git'' ''git'' [''ls-remote'', ''-q'', ''origin'', ''refs/heads/master'']"
proof -
  from getRevs_remote_ref [OF hashForRev_git(2)]
  obtain r where tr: "snd (getRevs env_git opts_demo ''HEAD'' []) =
      [(Command ''/git'' ''git'' [''rev-list'', ''-n1'', ''HEAD''], Inr (''5ca1ab1e'' @ [CHR 0x0A]))] @
      [(Command (Root opts_demo) ''git''
          (cmdForLog_args env_git
             [''ls-remote'', ''-q'', ''origin'',
              if Rev opts_demo = ''HEAD'' then ''refs/heads/'' @ Branch opts_demo
              else ''refs/tags/'' @ Rev opts_demo @ ''^{}'']), r)]"
    and same: "\<forall>rv' tr' l' tr1'. hashForRev env_git opts_demo rv' tr' = (Inr l', tr1') \<longrightarrow>
        fst (last (snd (getRevs env_git opts_demo rv' tr'))) =
        fst (last (snd (getRevs env_git opts_demo ''HEAD'' [])))"
    by blast
  have r: "snd (getRevs env_git opts_demo ''HEAD'' []) ! 1 =
     (Command ''/git'' ''git'' [''ls-remote'', ''-q'', ''origin'', ''refs/heads/master''],
      Inr (''5ca1ab1e'' @ [CHR 0x09] @ ''refs/heads/master'' @ [CHR 0x0A]))"
    by code_simp
  from same [rule_format, OF hashForRev_git(1)] r tr
  show ?thesis
    by (simp add: opts_demo_def cmdForLog_args_def ContainsAny_def blanks_def)
qed

section \<open>The poll loop\<close>

lemma main_iter_continues:
  "main_iter E opts ls tr = (Inr ls', tr') \<Longrightarrow> \<not> initialSync ls'"
  by (auto simp: main_iter_def split: prod.splits option.splits sum.splits if_splits)

lemma main_loop_initialSync:
  "main_loop E opts n ls tr = (Inr ls', tr') \<Longrightarrow> 0 < n \<Longrightarrow> \<not> initialSync ls'"
proof (induction n arbitrary: ls tr)
  case 0
  then show ?case by simp
next
  case (Suc n)
  from Suc.prems(1) obtain ls1 tr1 where it: "main_iter E opts ls tr = (Inr ls1, tr1)"
    and rest: "main_loop E opts n ls1 tr1 = (Inr ls', tr')"
    by (auto split: prod.splits sum.splits)
  show ?case
  proof (cases n)
    case 0
    with rest it show ?thesis
      using main_iter_continues by auto
  next
    case (Suc m)
    with Suc.IH [OF rest] show ?thesis by simp
  qed
qed

text \<open>
  C6. An iteration of the loop whose \<open>sync\<close> fails ends the process with exit status 1
  when no \<open>sync\<close> has succeeded yet (\<open>initialSync\<close>), whatever \<open>MaxSyncFailures\<close> is;
  afterwards it ends the process exactly when \<open>failCount\<close> has reached
  \<open>MaxSyncFailures\<close>, and otherwise counts the failure, sleeps and goes on. An
  iteration whose \<open>sync\<close> succeeds and that goes on leaves \<open>failCount\<close> at zero.
  \<open>initialSync\<close> holds in no iteration but the first: a loop that is still running
  after an iteration has had a successful \<open>sync\<close>.
\<close>

theorem main_failure_budget:
  assumes "sync E opts tr = (r, tr1)"
  shows "(r \<noteq> None \<and> initialSync ls \<longrightarrow> main_iter E opts ls tr = (Inl (Exit 1), tr1)) \<and>
         (r \<noteq> None \<and> \<not> initialSync ls \<longrightarrow>
            main_iter E opts ls tr =
              (if MaxSyncFailures opts \<le> failCount ls then (Inl (Exit 1), tr1)
               else (Inr (ls\<lparr>failCount := failCount ls + 1\<rparr>),
                     tr1 @ [(Sleep, os_call E tr1 Sleep)]))) \<and>
         (r = None \<longrightarrow>
            (\<forall>ls' tr'. main_iter E opts ls tr = (Inr ls', tr') \<longrightarrow> failCount ls' = 0)) \<and>
         (\<forall>n ls0 tr0 ls' tr'. main_loop E opts n ls0 tr0 = (Inr ls', tr') \<and> 0 < n \<longrightarrow>
            \<not> initialSync ls')"
proof (intro conjI)
  show "r \<noteq> None \<and> initialSync ls \<longrightarrow> main_iter E opts ls tr = (Inl (Exit 1), tr1)"
    using assms by (auto simp: main_iter_def)
  show "r \<noteq> None \<and> \<not> initialSync ls \<longrightarrow>
      main_iter E opts ls tr =
        (if MaxSyncFailures opts \<le> failCount ls then (Inl (Exit 1), tr1)
         else (Inr (ls\<lparr>failCount := failCount ls + 1\<rparr>), tr1 @ [(Sleep, os_call E tr1 Sleep)]))"
    using assms by (auto simp: main_iter_def sys_def)
  show "r = None \<longrightarrow>
      (\<forall>ls' tr'. main_iter E opts ls tr = (Inr ls', tr') \<longrightarrow> failCount ls' = 0)"
    using assms
    by (auto simp: main_iter_def split: prod.splits sum.splits if_splits)
  show "\<forall>n ls0 tr0 ls' tr'. main_loop E opts n ls0 tr0 = (Inr ls', tr') \<and> 0 < n \<longrightarrow>
      \<not> initialSync ls'"
    using main_loop_initialSync by blast
qed

lemma sync_down:
  "sync env_down opts_demo [] =
     (Some (Errorf ''error checking if repo exists'' (Failed (ErrOther ''input/output error''))),
      [(Stat ''https:/example.com/app.git/app/.git'', Inl (ErrOther ''input/output error''))])"
  by code_simp

lemma sync_git_first:
  "sync env_git opts_demo [] =
     (None,
      [(Stat ''https:/example.com/app.git/app/.git'', Inl ErrNotExist),
       (Command [] ''git''
          [''clone'', ''--no-checkout'', ''-b'', ''master'', ''https://example.com/app.git'', ''/git''],
        Inr []),
       (Command ''/git'' ''git'' [''rev-list'', ''-n1'', ''HEAD''], Inr (''5ca1ab1e'' @ [CHR 0x0A])),
       (Command ''/git'' ''git'' [''fetch'', ''--tags'', ''origin'', ''master''], Inr []),
       (Command ''/git'' ''git'' [''worktree'', ''add'', ''/git/rev-5ca1ab1e'', ''origin/master''],
        Inr []),
       (WriteFile ''/git/rev-5ca1ab1e/.git''
          (''gitdir: ../.git/worktrees/rev-5ca1ab1e'' @ [CHR 0x0A]), Inr []),
       (Command ''/git/rev-5ca1ab1e'' ''git'' [''reset'', ''--hard'', ''5ca1ab1e''], Inr []),
       (EvalSymlinks ''/git/app'', Inl ErrNotExist),
       (Command ''/git'' ''ln'' [''-snf'', ''rev-5ca1ab1e'', ''tmp-link''], Inr []),
       (Command ''/git'' ''mv'' [''-T'', ''tmp-link'', ''app''], Inr [])])"
  by code_simp

theorem main_failure_budget_witness:
  "main_iter env_down (opts_demo\<lparr>MaxSyncFailures := 0\<rparr>) \<lparr>initialSync = True, failCount = 0\<rparr> [] =
     (Inl (Exit 1), snd (sync env_down opts_demo [])) \<and>
   main_iter env_down opts_demo \<lparr>initialSync = True, failCount = 0\<rparr> [] =
     (Inl (Exit 1), snd (sync env_down opts_demo [])) \<and>
   main_iter env_down opts_demo \<lparr>initialSync = False, failCount = 1\<rparr> [] =
     (Inr \<lparr>initialSync = False, failCount = 2\<rparr>,
      snd (sync env_down opts_demo []) @ [(Sleep, Inl (ErrOther ''input/output error''))]) \<and>
   main_iter env_down opts_demo \<lparr>initialSync = False, failCount = 2\<rparr> [] =
     (Inl (Exit 1), snd (sync env_down opts_demo [])) \<and>
   fst (main_iter env_git opts_demo \<lparr>initialSync = False, failCount = 1\<rparr> []) =
     Inr \<lparr>initialSync = False, failCount = 0\<rparr> \<and>
   fst (main env_git opts_demo 1) = Inr \<lparr>initialSync = False, failCount = 0\<rparr>"
proof -
  have down0: "sync env_down (opts_demo\<lparr>MaxSyncFailures := 0\<rparr>) [] =
      (Some (Errorf ''error checking if repo exists'' (Failed (ErrOther ''input/output error''))),
       snd (sync env_down opts_demo []))"
    by code_simp
  have down: "sync env_down opts_demo [] =
      (Some (Errorf ''error checking if repo exists'' (Failed (ErrOther ''input/output error''))),
       snd (sync env_down opts_demo []))"
    by code_simp
  have up: "sync env_git opts_demo [] = (None, snd (sync env_git opts_demo []))"
    by code_simp
  have it: "main_iter env_git opts_demo \<lparr>initialSync = False, failCount = 1\<rparr> [] =
      (Inr \<lparr>initialSync = False, failCount = 0\<rparr>,
       snd (main_iter env_git opts_demo \<lparr>initialSync = False, failCount = 1\<rparr> []))"
    by code_simp
  have lp: "main_loop env_git opts_demo 1 \<lparr>initialSync = True, failCount = 0\<rparr> [] =
      (Inr \<lparr>initialSync = False, failCount = 0\<rparr>, snd (main env_git opts_demo 1))"
    by code_simp
  have sl: "os_call env_down (snd (sync env_down opts_demo [])) Sleep =
      Inl (ErrOther ''input/output error'')"
    by (simp add: env_down_def)
  have budget: "MaxSyncFailures opts_demo = 2"
    by (simp add: opts_demo_def)
  note a = main_failure_budget [OF down0, of "\<lparr>initialSync = True, failCount = 0\<rparr>"]
  note b = main_failure_budget [OF down, of "\<lparr>initialSync = True, failCount = 0\<rparr>"]
  note c = main_failure_budget [OF down, of "\<lparr>initialSync = False, failCount = 1\<rparr>"]
  note d = main_failure_budget [OF down, of "\<lparr>initialSync = False, failCount = 2\<rparr>"]
  note e = main_failure_budget [OF up, of "\<lparr>initialSync = False, failCount = 1\<rparr>"]
  have w1: "main_iter env_down (opts_demo\<lparr>MaxSyncFailures := 0\<rparr>)
        \<lparr>initialSync = True, failCount = 0\<rparr> [] =
      (Inl (Exit 1), snd (sync env_down opts_demo []))"
    using a by simp
  have w2: "main_iter env_down opts_demo \<lparr>initialSync = True, failCount = 0\<rparr> [] =
      (Inl (Exit 1), snd (sync env_down opts_demo []))"
    using b by simp
  have w3: "main_iter env_down opts_demo \<lparr>initialSync = False, failCount = 1\<rparr> [] =
      (Inr \<lparr>initialSync = False, failCount = 2\<rparr>,
       snd (sync env_down opts_demo []) @ [(Sleep, Inl (ErrOther ''input/output error''))])"
    using c sl budget by simp
  have w4: "main_iter env_down opts_demo \<lparr>initialSync = False, failCount = 2\<rparr> [] =
      (Inl (Exit 1), snd (sync env_down opts_demo []))"
    using d budget by simp
  from e it have "failCount \<lparr>initialSync = False, failCount = 0\<rparr> = 0"
    by blast
  have w5: "fst (main_iter env_git opts_demo \<lparr>initialSync = False, failCount = 1\<rparr> []) =
      Inr \<lparr>initialSync = False, failCount = 0\<rparr>"
    by (subst it) simp
  have w6: "fst (main env_git opts_demo 1) = Inr \<lparr>initialSync = False, failCount = 0\<rparr>"
    unfolding main_def by (subst lp) simp
  from w1 w2 w3 w4 w5 w6 show ?thesis
    by blast
qed

text \<open>
  C9. In the iteration whose \<open>sync\<close> succeeds while \<open>initialSync\<close> holds, \<open>revIsHash\<close>
  is asked about the configured revision right after \<open>sync\<close>, and if it answers true
  the process parks in \<open>sleepForever\<close>, whether or not \<open>OneTime\<close> is set. Exit status
  0 is reached only from such an iteration, with \<open>OneTime\<close> set and \<open>revIsHash\<close>
  answering false. An iteration without \<open>initialSync\<close> makes no call besides those of
  \<open>sync\<close> and the sleep, so it does not ask \<open>revIsHash\<close>; and \<open>initialSync\<close> holds
  in no iteration after the first.
\<close>

theorem hash_check_before_one_time:
  assumes "sync E opts tr = (r, tr1)"
  shows "(r = None \<and> initialSync ls \<and> revIsHash E opts (Rev opts) tr1 = (Inr True, tr2) \<longrightarrow>
            main_iter E opts ls tr = (Inl SleepForever, tr2)) \<and>
         (main_iter E opts ls tr = (Inl (Exit 0), tr') \<longrightarrow>
            r = None \<and> initialSync ls \<and> OneTime opts \<and>
            revIsHash E opts (Rev opts) tr1 = (Inr False, tr')) \<and>
         (r = None \<and> initialSync ls \<longrightarrow>
            snd (main_iter E opts ls tr) = snd (revIsHash E opts (Rev opts) tr1) \<or>
            snd (main_iter E opts ls tr) =
              snd (revIsHash E opts (Rev opts) tr1) @
              [(Sleep, os_call E (snd (revIsHash E opts (Rev opts) tr1)) Sleep)]) \<and>
         (\<not> initialSync ls \<longrightarrow>
            snd (main_iter E opts ls tr) = tr1 \<or>
            snd (main_iter E opts ls tr) = tr1 @ [(Sleep, os_call E tr1 Sleep)]) \<and>
         (\<forall>n ls0 tr0 ls' tr'. main_loop E opts n ls0 tr0 = (Inr ls', tr') \<and> 0 < n \<longrightarrow>
            \<not> initialSync ls')"
proof (intro conjI)
  show "r = None \<and> initialSync ls \<and> revIsHash E opts (Rev opts) tr1 = (Inr True, tr2) \<longrightarrow>
      main_iter E opts ls tr = (Inl SleepForever, tr2)"
    using assms by (auto simp: main_iter_def)
  show "main_iter E opts ls tr = (Inl (Exit 0), tr') \<longrightarrow>
      r = None \<and> initialSync ls \<and> OneTime opts \<and>
      revIsHash E opts (Rev opts) tr1 = (Inr False, tr')"
    using assms
    by (auto simp: main_iter_def split: prod.splits option.splits sum.splits if_splits)
  show "r = None \<and> initialSync ls \<longrightarrow>
      snd (main_iter E opts ls tr) = snd (revIsHash E opts (Rev opts) tr1) \<or>
      snd (main_iter E opts ls tr) =
        snd (revIsHash E opts (Rev opts) tr1) @
        [(Sleep, os_call E (snd (revIsHash E opts (Rev opts) tr1)) Sleep)]"
    using assms
    by (auto simp: main_iter_def sys_def split: prod.splits option.splits sum.splits if_splits)
  show "\<not> initialSync ls \<longrightarrow>
      snd (main_iter E opts ls tr) = tr1 \<or>
      snd (main_iter E opts ls tr) = tr1 @ [(Sleep, os_call E tr1 Sleep)]"
    using assms
    by (auto simp: main_iter_def sys_def split: prod.splits option.splits sum.splits if_splits)
  show "\<forall>n ls0 tr0 ls' tr'. main_loop E opts n ls0 tr0 = (Inr ls', tr') \<and> 0 < n \<longrightarrow>
      \<not> initialSync ls'"
    using main_loop_initialSync by blast
qed

theorem hash_check_before_one_time_witness:
  "OneTime opts_pinned \<and>
   fst (main_iter env_git opts_pinned \<lparr>initialSync = True, failCount = 0\<rparr> []) = Inl SleepForever \<and>
   OneTime opts_once \<and>
   fst (revIsHash env_git opts_once (Rev opts_once) (snd (sync env_git opts_once []))) = Inr False \<and>
   fst (main_iter env_git opts_once \<lparr>initialSync = True, failCount = 0\<rparr> []) = Inl (Exit 0)"
proof -
  have pinned: "sync env_git opts_pinned [] = (None, snd (sync env_git opts_pinned []))"
    by code_simp
  have isHash: "revIsHash env_git opts_pinned (Rev opts_pinned) (snd (sync env_git opts_pinned [])) =
      (Inr True,
       snd (revIsHash env_git opts_pinned (Rev opts_pinned) (snd (sync env_git opts_pinned []))))"
    by code_simp
  have w1: "fst (main_iter env_git opts_pinned \<lparr>initialSync = True, failCount = 0\<rparr> []) =
      Inl SleepForever"
    using hash_check_before_one_time
      [OF pinned, THEN conjunct1, rule_format, of "\<lparr>initialSync = True, failCount = 0\<rparr>",
       OF conjI, OF refl, OF conjI, OF _ isHash]
    by simp
  have once: "sync env_git opts_once [] = (None, snd (sync env_git opts_once []))"
    by code_simp
  have ex: "main_iter env_git opts_once \<lparr>initialSync = True, failCount = 0\<rparr> [] =
      (Inl (Exit 0), snd (main_iter env_git opts_once \<lparr>initialSync = True, failCount = 0\<rparr> []))"
    by code_simp
  from hash_check_before_one_time [OF once, THEN conjunct2, THEN conjunct1, rule_format, OF ex]
  have w2: "OneTime opts_once"
    and w3: "fst (revIsHash env_git opts_once (Rev opts_once) (snd (sync env_git opts_once []))) =
      Inr False"
    by simp_all
  have w4: "fst (main_iter env_git opts_once \<lparr>initialSync = True, failCount = 0\<rparr> []) =
      Inl (Exit 0)"
    by (subst ex) simp
  have w5: "OneTime opts_pinned"
    by (simp add: opts_pinned_def)
  from w1 w2 w3 w4 w5 show ?thesis
    by blast
qed

section \<open>First run or steady state\<close>

text \<open>
  What \<open>sync\<close> looks at to tell a first run from a later one: its first call is
  \<open>os.Stat\<close> of the path joined from \<open>Repo\<close>, \<open>Dest\<close> and \<open>.git\<close>, and \<open>Root\<close>, where
  \<open>cloneRepo\<close> puts the clone, plays no part in it.
\<close>

lemma sync_first_call:
  "case sync E opts tr of (res, tr') \<Rightarrow>
     \<exists>r evs. tr' = tr @ (Stat (Join [Join [Repo opts, Dest opts], ''.git'']), r) # evs"
  apply (simp add: sync_def cloneRepo_def hashForRev_def getRevs_def remoteHashForRef_def Let_def
      split: sys_split runCommand_split sum.split)
  apply (intro conjI allI impI)
   apply (rule addWorktreeAndSwap_cf_wp, clarsimp simp: cf_last_def)+
  done

text \<open>
  C2 at a failing input. The clone exists under the root \<open>/git\<close> (its \<open>.git\<close> is
  there), the repository is a URL, and \<open>sync\<close> looks for
  \<open>https:/example.com/app.git/app/.git\<close>, does not find it, and clones again.
\<close>

theorem sync_clones_over_local_copy:
  "os_call env_local_copy [] (Stat (Join [Root opts_demo, ''.git''])) = Inr [] \<and>
   sync env_local_copy opts_demo [] =
     (Some (Errorf ''error running command'' (Failed (ErrOther ''exit status 128''))),
      [(Stat ''https:/example.com/app.git/app/.git'', Inl ErrNotExist),
       (Command [] ''git''
          [''clone'', ''--no-checkout'', ''-b'', ''master'', ''https://example.com/app.git'', ''/git''],
        Inl (ErrOther ''exit status 128''))])"
  by code_simp

text \<open>
  Where \<open>sync\<close> does find its marker, and the local and the remote resolution agree,
  it returns without error after three calls that only read: the \<open>os.Stat\<close>,
  \<open>git rev-list\<close> and \<open>git ls-remote\<close>.
\<close>

lemma sync_no_update:
  assumes marker: "os_call E tr (Stat (Join [Join [Repo opts, Dest opts], ''.git''])) = Inr info"
    and loc: "os_call E (tr @ [(Stat (Join [Join [Repo opts, Dest opts], ''.git'']), Inr info)])
        (Command (Root opts) ''git'' (cmdForLog_args E [''rev-list'', ''-n1'', Rev opts])) = Inr out1"
    and rem: "os_call E
        (tr @ [(Stat (Join [Join [Repo opts, Dest opts], ''.git'']), Inr info),
               (Command (Root opts) ''git'' (cmdForLog_args E [''rev-list'', ''-n1'', Rev opts]),
                Inr out1)])
        (Command (Root opts) ''git''
           (cmdForLog_args E
              [''ls-remote'', ''-q'', ''origin'',
               if Rev opts = ''HEAD'' then ''refs/heads/'' @ Branch opts
               else ''refs/tags/'' @ Rev opts @ ''^{}''])) = Inr out2"
    and same: "Trim out1 [CHR 0x0A] = takeWhile (\<lambda>c. c \<noteq> CHR 0x09) out2"
  shows "sync E opts tr =
     (None,
      tr @ [(Stat (Join [Join [Repo opts, Dest opts], ''.git'']), Inr info),
            (Command (Root opts) ''git'' (cmdForLog_args E [''rev-list'', ''-n1'', Rev opts]),
             Inr out1),
            (Command (Root opts) ''git''
               (cmdForLog_args E
                  [''ls-remote'', ''-q'', ''origin'',
                   if Rev opts = ''HEAD'' then ''refs/heads/'' @ Branch opts
                   else ''refs/tags/'' @ Rev opts @ ''^{}'']), Inr out2)])"
  using assms
  by (simp add: sync_def getRevs_def hashForRev_def remoteHashForRef_def runCommand_def sys_def
      Let_def hd_Split)

text \<open>
  C3 at a failing input. A first pass succeeds and leaves the clone under \<open>/git\<close>; the
  remote does not change; the pass that follows does not compare revisions but runs
  \<open>git clone\<close> again, which fails on the root that is no longer empty, and returns that
  error.
\<close>

theorem second_sync_clones_again:
  "fst (sync env_git opts_demo []) = None \<and>
   os_call env_git (snd (sync env_git opts_demo [])) (Stat ''/git/.git'') = Inr [] \<and>
   fst (sync env_git opts_demo (snd (sync env_git opts_demo []))) =
     Some (Errorf ''error running command'' (Failed (ErrOther ''exit status 128''))) \<and>
   drop 10 (snd (sync env_git opts_demo (snd (sync env_git opts_demo [])))) =
     [(Stat ''https:/example.com/app.git/app/.git'', Inl ErrNotExist),
      (Command [] ''git''
         [''clone'', ''--no-checkout'', ''-b'', ''master'', ''https://example.com/app.git'', ''/git''],
       Inl (ErrOther ''exit status 128''))]"
  by code_simp

end
